theory Spec2Isabelle
  imports Complex_Main "HOL-Library.Word" "HOL-Library.AList" "HOL-Library.List_Lexorder"
    "HOL-Library.Product_Lexorder"
begin

text \<open>
  A model of the JSONSpark backend: an Express server that stores a JSON document under a
  slug in a Firestore collection and serves it back. The repository holds the server in
  two versions, \<^verbatim>\<open>src/backend/server.js\<close> with the paths \<^verbatim>\<open>/create\<close>, \<^verbatim>\<open>/:slug\<close>, \<^verbatim>\<open>/\<close>
  and \<^verbatim>\<open>/health\<close> (called the flat server below), and a second file with the paths under
  \<^verbatim>\<open>/api\<close>; a third, partial listing repeats the create handler of the first with the
  extended health check of the second. Both versions are modelled, handler by handler.
\<close>

section \<open>JavaScript strings\<close>

text \<open>
  A JavaScript string is a sequence of UTF-16 code units. Slugs, names, JSON texts and
  the keys and strings inside JSON values are all such strings. \<open>cu\<close> gives the
  code unit of an ASCII character and \<open>js\<close> turns an ASCII literal into a
  JavaScript string.
\<close>

type_synonym code_unit = "16 word"

type_synonym js_string = "code_unit list"

definition cu :: "char \<Rightarrow> code_unit" where
  "cu c = of_nat (of_char c)"

definition js :: "string \<Rightarrow> js_string" where
  "js s = map cu s"

section \<open>Regular expressions, as far as \<open>validateSlug\<close> uses them\<close>

text \<open>
  \<^verbatim>\<open>/^[a-z0-9-]+$/.test(slug)\<close> uses four constructs: the assertions \<^verbatim>\<open>^\<close> and
  \<^verbatim>\<open>$\<close> (without the multiline flag: start and end of the whole input), a
  character class made of ranges and single characters, and the quantifier \<^verbatim>\<open>+\<close>
  on a class. A pattern is a sequence of such terms. \<open>match_here\<close> is the
  backtracking matcher at one position (\<open>at_start\<close> tells whether that position is
  index 0); \<open>regexp_search\<close> tries every start position from left to right, as
  \<^verbatim>\<open>RegExp.prototype.test\<close> does for a pattern without the sticky flag.
\<close>

datatype class_item = Range code_unit code_unit | Single code_unit

datatype re_term = AssertStart | AssertEnd | OneOrMore "class_item list"

fun in_item :: "class_item \<Rightarrow> code_unit \<Rightarrow> bool" where
  "in_item (Range lo hi) c = (lo \<le> c \<and> c \<le> hi)"
| "in_item (Single x) c = (c = x)"

definition in_class :: "class_item list \<Rightarrow> code_unit \<Rightarrow> bool" where
  "in_class items c = list_ex (\<lambda>i. in_item i c) items"

fun match_here :: "re_term list \<Rightarrow> bool \<Rightarrow> js_string \<Rightarrow> bool" where
  "match_here [] at_start s = True"
| "match_here (AssertStart # r) at_start s = (at_start \<and> match_here r at_start s)"
| "match_here (AssertEnd # r) at_start s = (s = [] \<and> match_here r at_start s)"
| "match_here (OneOrMore cls # r) at_start [] = False"
| "match_here (OneOrMore cls # r) at_start (c # s) =
     (in_class cls c \<and> (match_here (OneOrMore cls # r) False s \<or> match_here r False s))"

fun regexp_search :: "re_term list \<Rightarrow> bool \<Rightarrow> js_string \<Rightarrow> bool" where
  "regexp_search r at_start [] = match_here r at_start []"
| "regexp_search r at_start (c # s) =
     (match_here r at_start (c # s) \<or> regexp_search r False s)"

definition regexp_test :: "re_term list \<Rightarrow> js_string \<Rightarrow> bool" where
  "regexp_test r s = regexp_search r True s"

section \<open>The validators\<close>

text \<open>
  \<^verbatim>\<open>const validateSlug = (slug) => { return /^[a-z0-9-]+$/.test(slug); };\<close>
  The same text stands in both server files.
\<close>

definition slug_class :: "class_item list" where
  "slug_class = [Range (cu CHR ''a'') (cu CHR ''z''), Range (cu CHR ''0'') (cu CHR ''9''),
                 Single (cu CHR ''-'')]"

definition slug_pattern :: "re_term list" where
  "slug_pattern = [AssertStart, OneOrMore slug_class, AssertEnd]"

definition validateSlug :: "js_string \<Rightarrow> bool" where
  "validateSlug slug = regexp_test slug_pattern slug"

text \<open>
  The specification's wording of the same set: lowercase ASCII letters, digits and the
  hyphen, written with the code units themselves.
\<close>

definition lowercase_ascii_letter :: "code_unit \<Rightarrow> bool" where
  "lowercase_ascii_letter c = (0x61 \<le> c \<and> c \<le> 0x7A)"

definition ascii_digit :: "code_unit \<Rightarrow> bool" where
  "ascii_digit c = (0x30 \<le> c \<and> c \<le> 0x39)"

definition hyphen :: "code_unit \<Rightarrow> bool" where
  "hyphen c = (c = 0x2D)"

definition slug_char :: "code_unit \<Rightarrow> bool" where
  "slug_char c = (lowercase_ascii_letter c \<or> ascii_digit c \<or> hyphen c)"

section \<open>JSON values and \<open>JSON.parse\<close>\<close>

text \<open>
  The values that \<^verbatim>\<open>JSON.parse\<close> produces. An object is the list of its members in
  the order in which its keys were first added, each key once. A number is kept as the
  exact rational value of its literal; JavaScript then rounds it to the nearest double,
  which the model does not do (see \<open>rounds_to_zero\<close> for the one place where the
  rounding matters to the handlers).
\<close>

datatype json =
    JNull
  | JBool bool
  | JNum rat
  | JString js_string
  | JArray "json list"
  | JObject "(js_string \<times> json) list"

text \<open>
  \<^verbatim>\<open>JSON.parse\<close> follows the JSON grammar of ECMA-404: insignificant white space is
  tab, line feed, carriage return and space; a string may not hold an unescaped code unit
  below U+0020 and knows the escapes \<^verbatim>\<open>\" \\ \/ \b \f \n \r \t \uXXXX\<close>; a number is
  \<^verbatim>\<open>-? (0 | [1-9][0-9]*) (. [0-9]+)? ([eE] [+-]? [0-9]+)?\<close>. Every parsing function
  returns the parsed item and the rest of the input, or \<open>None\<close> where
  \<^verbatim>\<open>JSON.parse\<close> throws a \<^verbatim>\<open>SyntaxError\<close>.
\<close>

definition is_ws :: "code_unit \<Rightarrow> bool" where
  "is_ws c = (c = 0x09 \<or> c = 0x0A \<or> c = 0x0D \<or> c = 0x20)"

definition skip_ws :: "js_string \<Rightarrow> js_string" where
  "skip_ws s = dropWhile is_ws s"

definition is_digit :: "code_unit \<Rightarrow> bool" where
  "is_digit c = (cu CHR ''0'' \<le> c \<and> c \<le> cu CHR ''9'')"

definition digit_val :: "code_unit \<Rightarrow> nat" where
  "digit_val c = unat c - 48"

definition digits_val :: "js_string \<Rightarrow> nat" where
  "digits_val ds = foldl (\<lambda>a d. 10 * a + digit_val d) 0 ds"

definition hex_val :: "code_unit \<Rightarrow> nat option" where
  "hex_val c =
     (if cu CHR ''0'' \<le> c \<and> c \<le> cu CHR ''9'' then Some (unat c - 48)
      else if cu CHR ''a'' \<le> c \<and> c \<le> cu CHR ''f'' then Some (unat c - 87)
      else if cu CHR ''A'' \<le> c \<and> c \<le> cu CHR ''F'' then Some (unat c - 55)
      else None)"

definition hex4 :: "code_unit \<Rightarrow> code_unit \<Rightarrow> code_unit \<Rightarrow> code_unit \<Rightarrow> code_unit option" where
  "hex4 a b c d =
     (case (hex_val a, hex_val b, hex_val c, hex_val d) of
        (Some w, Some x, Some y, Some z) \<Rightarrow> Some (of_nat (((w * 16 + x) * 16 + y) * 16 + z))
      | _ \<Rightarrow> None)"

definition simple_escape :: "code_unit \<Rightarrow> code_unit option" where
  "simple_escape e =
     (if e = 0x22 then Some 0x22
      else if e = cu CHR 0x5C then Some 0x5C
      else if e = cu CHR ''/'' then Some 0x2F
      else if e = cu CHR ''b'' then Some 0x08
      else if e = cu CHR ''f'' then Some 0x0C
      else if e = cu CHR ''n'' then Some 0x0A
      else if e = cu CHR ''r'' then Some 0x0D
      else if e = cu CHR ''t'' then Some 0x09
      else None)"

text \<open>
  The characters of a string, after its opening quote, up to the closing quote
  (\<open>0x22\<close> is the double quote, \<open>0x5C\<close> the backslash).
\<close>

fun parse_chars :: "js_string \<Rightarrow> (js_string \<times> js_string) option" where
  "parse_chars [] = None"
| "parse_chars (c # s) =
     (if c = 0x22 then Some ([], s)
      else if c = cu CHR 0x5C then
        (case s of
           [] \<Rightarrow> None
         | e # s1 \<Rightarrow>
             if e = cu CHR ''u'' then
               (case s1 of
                  h1 # h2 # h3 # h4 # s2 \<Rightarrow>
                    (case hex4 h1 h2 h3 h4 of
                       None \<Rightarrow> None
                     | Some u \<Rightarrow> map_option (\<lambda>(str, r). (u # str, r)) (parse_chars s2))
                | _ \<Rightarrow> None)
             else
               (case simple_escape e of
                  None \<Rightarrow> None
                | Some x \<Rightarrow> map_option (\<lambda>(str, r). (x # str, r)) (parse_chars s1)))
      else if c < 0x20 then None
      else map_option (\<lambda>(str, r). (c # str, r)) (parse_chars s))"

lemma parse_chars_shorter: "parse_chars s = Some (str, r) \<Longrightarrow> length r < length s"
proof (induction s arbitrary: str r rule: parse_chars.induct)
  case 1
  then show ?case by simp
next
  case (2 c s)
  then show ?case
    by (fastforce split: if_splits list.splits option.splits)
qed

text \<open>Numbers: integer part, optional fraction, optional exponent.\<close>

definition pow10 :: "int \<Rightarrow> rat" where
  "pow10 e = (if 0 \<le> e then 10 ^ nat e else 1 / 10 ^ nat (- e))"

definition parse_int_part :: "js_string \<Rightarrow> (nat \<times> js_string) option" where
  "parse_int_part s =
     (case s of
        [] \<Rightarrow> None
      | c # r \<Rightarrow>
          if c = cu CHR ''0'' then Some (0, r)
          else if is_digit c then
            Some (digits_val (c # takeWhile is_digit r), dropWhile is_digit r)
          else None)"

definition parse_frac :: "js_string \<Rightarrow> (rat \<times> js_string) option" where
  "parse_frac s =
     (case s of
        [] \<Rightarrow> Some (0, [])
      | c # r \<Rightarrow>
          if c = cu CHR ''.'' then
            (let ds = takeWhile is_digit r in
             if ds = [] then None
             else Some (of_nat (digits_val ds) / 10 ^ length ds, dropWhile is_digit r))
          else Some (0, s))"

definition parse_sign :: "js_string \<Rightarrow> bool \<times> js_string" where
  "parse_sign s =
     (case s of
        [] \<Rightarrow> (False, [])
      | c # r \<Rightarrow>
          if c = cu CHR ''-'' then (True, r)
          else if c = cu CHR ''+'' then (False, r)
          else (False, s))"

definition parse_exp :: "js_string \<Rightarrow> (int \<times> js_string) option" where
  "parse_exp s =
     (case s of
        [] \<Rightarrow> Some (0, [])
      | c # r \<Rightarrow>
          if c = cu CHR ''e'' \<or> c = cu CHR ''E'' then
            (case parse_sign r of
               (neg, r1) \<Rightarrow>
                 let ds = takeWhile is_digit r1 in
                 if ds = [] then None
                 else Some (if neg then - int (digits_val ds) else int (digits_val ds),
                            dropWhile is_digit r1))
          else Some (0, s))"

definition parse_number :: "js_string \<Rightarrow> (rat \<times> js_string) option" where
  "parse_number s =
     (case (case s of [] \<Rightarrow> (False, s) | c # r \<Rightarrow> if c = cu CHR ''-'' then (True, r) else (False, s)) of
        (neg, s1) \<Rightarrow>
          (case parse_int_part s1 of
             None \<Rightarrow> None
           | Some (i, s2) \<Rightarrow>
               (case parse_frac s2 of
                  None \<Rightarrow> None
                | Some (f, s3) \<Rightarrow>
                    (case parse_exp s3 of
                       None \<Rightarrow> None
                     | Some (e, s4) \<Rightarrow>
                         Some ((if neg then - 1 else 1) * (of_nat i + f) * pow10 e, s4)))))"

definition strip_literal :: "js_string \<Rightarrow> js_string \<Rightarrow> js_string option" where
  "strip_literal lit s =
     (if take (length lit) s = lit then Some (drop (length lit) s) else None)"

text \<open>
  A key that occurs again in an object keeps its first position and takes the later
  value, as \<^verbatim>\<open>JSON.parse\<close> does (\<open>AList.update\<close>).
\<close>

definition make_object :: "(js_string \<times> json) list \<Rightarrow> json" where
  "make_object members = JObject (foldl (\<lambda>al kv. AList.update (fst kv) (snd kv) al) [] members)"

lemma skip_ws_le: "length (skip_ws s) \<le> length s"
  by (simp add: skip_ws_def length_dropWhile_le)

lemma skip_ws_Cons_less: "skip_ws s = c # r \<Longrightarrow> length r < length s"
  using skip_ws_le [of s] by simp

text \<open>
  Values, the elements of a non-empty array and the members of a non-empty object. The
  tests \<open>length r < length s\<close> only serve the termination proof: a successful
  \<open>parse_value\<close> always consumes input, so they never fail.
\<close>

function parse_value :: "js_string \<Rightarrow> (json \<times> js_string) option"
  and parse_elements :: "js_string \<Rightarrow> (json list \<times> js_string) option"
  and parse_members :: "js_string \<Rightarrow> ((js_string \<times> json) list \<times> js_string) option"
where
  "parse_value [] = None"
| "parse_value (c # s) =
     (if c = cu CHR ''{'' then
        (case skip_ws s of
           [] \<Rightarrow> None
         | d # r \<Rightarrow>
             if d = cu CHR ''}'' then Some (JObject [], r)
             else (case parse_members (d # r) of
                     None \<Rightarrow> None
                   | Some (ms, r1) \<Rightarrow> Some (make_object ms, r1)))
      else if c = cu CHR ''['' then
        (case skip_ws s of
           [] \<Rightarrow> None
         | d # r \<Rightarrow>
             if d = cu CHR '']'' then Some (JArray [], r)
             else (case parse_elements (d # r) of
                     None \<Rightarrow> None
                   | Some (vs, r1) \<Rightarrow> Some (JArray vs, r1)))
      else if c = 0x22 then
        (case parse_chars s of
           None \<Rightarrow> None
         | Some (str, r) \<Rightarrow> Some (JString str, r))
      else if c = cu CHR ''-'' \<or> is_digit c then
        (case parse_number (c # s) of
           None \<Rightarrow> None
         | Some (q, r) \<Rightarrow> Some (JNum q, r))
      else if c = cu CHR ''t'' then
        (case strip_literal (js ''rue'') s of
           None \<Rightarrow> None
         | Some r \<Rightarrow> Some (JBool True, r))
      else if c = cu CHR ''f'' then
        (case strip_literal (js ''alse'') s of
           None \<Rightarrow> None
         | Some r \<Rightarrow> Some (JBool False, r))
      else if c = cu CHR ''n'' then
        (case strip_literal (js ''ull'') s of
           None \<Rightarrow> None
         | Some r \<Rightarrow> Some (JNull, r))
      else None)"
| "parse_elements s =
     (case parse_value s of
        None \<Rightarrow> None
      | Some (v, r) \<Rightarrow>
          if length r < length s then
            (case skip_ws r of
               [] \<Rightarrow> None
             | c # r1 \<Rightarrow>
                 if c = cu CHR '','' then
                   (case parse_elements (skip_ws r1) of
                      None \<Rightarrow> None
                    | Some (vs, r2) \<Rightarrow> Some (v # vs, r2))
                 else if c = cu CHR '']'' then Some ([v], r1)
                 else None)
          else None)"
| "parse_members s =
     (case s of
        [] \<Rightarrow> None
      | q # s1 \<Rightarrow>
          if q = 0x22 then
            (case parse_chars s1 of
               None \<Rightarrow> None
             | Some (k, r1) \<Rightarrow>
                 (case skip_ws r1 of
                    [] \<Rightarrow> None
                  | c # r2 \<Rightarrow>
                      if c = cu CHR '':'' then
                        (case parse_value (skip_ws r2) of
                           None \<Rightarrow> None
                         | Some (v, r3) \<Rightarrow>
                             if length r3 < length s then
                               (case skip_ws r3 of
                                  [] \<Rightarrow> None
                                | d # r4 \<Rightarrow>
                                    if d = cu CHR '','' then
                                      (case parse_members (skip_ws r4) of
                                         None \<Rightarrow> None
                                       | Some (ms, r5) \<Rightarrow> Some ((k, v) # ms, r5))
                                    else if d = cu CHR ''}'' then Some ([(k, v)], r4)
                                    else None)
                             else None)
                      else None))
          else None)"
  by pat_completeness auto
termination
proof (relation "measure (\<lambda>x. case x of
                   Inl s \<Rightarrow> 2 * length s
                 | Inr (Inl s) \<Rightarrow> 2 * length s + 1
                 | Inr (Inr s) \<Rightarrow> 2 * length s + 1)", goal_cases)
  case 1
  show ?case by simp
next
  case (2 c s d r)
  then show ?case using skip_ws_le [of s] by simp
next
  case (3 c s d r)
  then show ?case using skip_ws_le [of s] by simp
next
  case (4 s)
  show ?case by simp
next
  case (5 s x v r c r1)
  then show ?case using skip_ws_le [of r1] skip_ws_Cons_less [of r c r1] by simp
next
  case (6 s q s1 x k r1 c r2)
  then show ?case
    using skip_ws_le [of r2] skip_ws_Cons_less [of r1 c r2] parse_chars_shorter [of s1 k r1]
    by simp
next
  case (7 s q s1 x k r1 c r2 y v r3 d r4)
  then show ?case using skip_ws_le [of r4] skip_ws_Cons_less [of r3 d r4] by simp
qed

text \<open>A JSON text is one value with white space around it and nothing else.\<close>

definition JSON_parse :: "js_string \<Rightarrow> json option" where
  "JSON_parse text =
     (case parse_value (skip_ws text) of
        None \<Rightarrow> None
      | Some (v, r) \<Rightarrow> if skip_ws r = [] then Some v else None)"

text \<open>
  \<^verbatim>\<open>const validateJSON = (jsonString) => { try { return JSON.parse(jsonString); }
  catch (e) { return null; } };\<close> The same text stands in both server files.
\<close>

definition validateJSON :: "js_string \<Rightarrow> json" where
  "validateJSON jsonString = (case JSON_parse jsonString of Some v \<Rightarrow> v | None \<Rightarrow> JNull)"

section \<open>\<open>JSON.stringify\<close>\<close>

text \<open>
  \<^verbatim>\<open>JSON.stringify\<close> without replacer and indentation, which the frontend applies to
  the user's input before sending it as \<^verbatim>\<open>jsonData\<close>. Strings are quoted as
  \<^verbatim>\<open>QuoteJSONString\<close> prescribes: the short escapes for backspace, tab, line feed, form
  feed, carriage return, quote and backslash; \<^verbatim>\<open>\uXXXX\<close> with lowercase digits for the
  other code units below U+0020 and for surrogates that are not part of a pair; every
  other code unit as it is.
\<close>

definition hex_digit :: "nat \<Rightarrow> code_unit" where
  "hex_digit n = (if n < 10 then of_nat (48 + n) else of_nat (87 + n))"

definition unicode_escape :: "code_unit \<Rightarrow> js_string" where
  "unicode_escape c =
     [0x5C, cu CHR ''u'',
      hex_digit (unat c div 4096), hex_digit (unat c div 256 mod 16),
      hex_digit (unat c div 16 mod 16), hex_digit (unat c mod 16)]"

definition is_leading_surrogate :: "code_unit \<Rightarrow> bool" where
  "is_leading_surrogate c = (0xD800 \<le> c \<and> c \<le> 0xDBFF)"

definition is_trailing_surrogate :: "code_unit \<Rightarrow> bool" where
  "is_trailing_surrogate c = (0xDC00 \<le> c \<and> c \<le> 0xDFFF)"

definition short_escape :: "code_unit \<Rightarrow> code_unit option" where
  "short_escape c =
     (if c = 0x08 then Some (cu CHR ''b'')
      else if c = 0x09 then Some (cu CHR ''t'')
      else if c = 0x0A then Some (cu CHR ''n'')
      else if c = 0x0C then Some (cu CHR ''f'')
      else if c = 0x0D then Some (cu CHR ''r'')
      else if c = 0x22 then Some 0x22
      else if c = 0x5C then Some 0x5C
      else None)"

fun quote_units :: "js_string \<Rightarrow> js_string" where
  "quote_units [] = []"
| "quote_units (c # s) =
     (case short_escape c of
        Some x \<Rightarrow> 0x5C # x # quote_units s
      | None \<Rightarrow>
          if c < 0x20 then unicode_escape c @ quote_units s
          else if is_leading_surrogate c then
            (case s of
               [] \<Rightarrow> unicode_escape c
             | d # s1 \<Rightarrow>
                 if is_trailing_surrogate d then c # d # quote_units s1
                 else unicode_escape c @ quote_units s)
          else if is_trailing_surrogate c then unicode_escape c @ quote_units s
          else c # quote_units s)"

definition QuoteJSONString :: "js_string \<Rightarrow> js_string" where
  "QuoteJSONString s = 0x22 # quote_units s @ [0x22]"

text \<open>
  Numbers: the model prints the integers of magnitude below 2 to the power 53, which doubles
  represent exactly and \<^verbatim>\<open>Number.prototype.toString\<close> prints as their decimal digits.
  For any other number the result is \<open>None\<close>: printing it needs the shortest-digits
  algorithm on doubles, which is outside this model.
\<close>

definition digit_char :: "nat \<Rightarrow> code_unit" where
  "digit_char d = 0x30 + of_nat d"

fun show_nat :: "nat \<Rightarrow> js_string" where
  "show_nat n = (if n < 10 then [digit_char n] else show_nat (n div 10) @ [digit_char (n mod 10)])"

declare show_nat.simps [simp del]

definition number_to_string :: "rat \<Rightarrow> js_string option" where
  "number_to_string q =
     (if of_int \<lfloor>q\<rfloor> = q \<and> \<bar>q\<bar> < 2 ^ 53
      then Some ((if q < 0 then [cu CHR ''-''] else []) @ show_nat (nat \<lfloor>\<bar>q\<bar>\<rfloor>))
      else None)"

text \<open>
  Values. A list with a repeated key is not an object that JavaScript can hold, so it has
  no text either.
\<close>

fun JSON_stringify :: "json \<Rightarrow> js_string option"
  and stringify_elements :: "json list \<Rightarrow> js_string option"
  and stringify_members :: "(js_string \<times> json) list \<Rightarrow> js_string option"
where
  "JSON_stringify JNull = Some (js ''null'')"
| "JSON_stringify (JBool b) = Some (if b then js ''true'' else js ''false'')"
| "JSON_stringify (JNum q) = number_to_string q"
| "JSON_stringify (JString s) = Some (QuoteJSONString s)"
| "JSON_stringify (JArray vs) =
     (if vs = [] then Some (js ''[]'')
      else (case stringify_elements vs of
              None \<Rightarrow> None
            | Some t \<Rightarrow> Some (cu CHR ''['' # t @ [cu CHR '']''])))"
| "JSON_stringify (JObject kvs) =
     (if \<not> distinct (map fst kvs) then None
      else if kvs = [] then Some (js ''{}'')
      else (case stringify_members kvs of
              None \<Rightarrow> None
            | Some t \<Rightarrow> Some (cu CHR ''{'' # t @ [cu CHR ''}''])))"
| "stringify_elements [] = Some []"
| "stringify_elements (v # vs) =
     (case JSON_stringify v of
        None \<Rightarrow> None
      | Some t \<Rightarrow>
          if vs = [] then Some t
          else (case stringify_elements vs of
                  None \<Rightarrow> None
                | Some ts \<Rightarrow> Some (t @ cu CHR '','' # ts)))"
| "stringify_members [] = Some []"
| "stringify_members (kv # kvs) =
     (case JSON_stringify (snd kv) of
        None \<Rightarrow> None
      | Some t \<Rightarrow>
          if kvs = [] then Some (QuoteJSONString (fst kv) @ cu CHR '':'' # t)
          else (case stringify_members kvs of
                  None \<Rightarrow> None
                | Some ts \<Rightarrow>
                    Some (QuoteJSONString (fst kv) @ cu CHR '':'' # t @ cu CHR '','' # ts)))"


section \<open>JavaScript truthiness\<close>

text \<open>
  The handlers test request fields and the validator's result with \<^verbatim>\<open>!x\<close>. A string
  is falsy when empty, \<^verbatim>\<open>undefined\<close> and \<^verbatim>\<open>null\<close> are falsy, \<^verbatim>\<open>false\<close> is
  falsy, a number is falsy when it is zero, arrays and objects are always truthy.
  \<open>JNum q\<close> carries the exact value of the number's literal; the Number that
  JavaScript computes from it is the nearest double (ties to even), which is \<open>+0\<close> or
  \<open>-0\<close> exactly when \<open>\<bar>q\<bar>\<close> is at most 2 to the power -1075, half of the smallest
  subnormal.
\<close>

definition rounds_to_zero :: "rat \<Rightarrow> bool" where
  "rounds_to_zero q = (\<bar>q\<bar> \<le> 1 / 2 ^ 1075)"

fun truthy :: "json \<Rightarrow> bool" where
  "truthy JNull = False"
| "truthy (JBool b) = b"
| "truthy (JNum q) = (\<not> rounds_to_zero q)"
| "truthy (JString s) = (s \<noteq> [])"
| "truthy (JArray vs) = True"
| "truthy (JObject kvs) = True"

text \<open>
  A field of \<^verbatim>\<open>req.body\<close> is \<^verbatim>\<open>undefined\<close> when the request does not carry it
  (\<open>None\<close>) and a string otherwise, as the frontend sends it. \<open>to_string\<close> is the
  coercion a field undergoes when it is passed to \<^verbatim>\<open>RegExp.test\<close> or
  \<^verbatim>\<open>JSON.parse\<close>.
\<close>

definition truthy_field :: "js_string option \<Rightarrow> bool" where
  "truthy_field x = (case x of None \<Rightarrow> False | Some s \<Rightarrow> s \<noteq> [])"

definition to_string :: "js_string option \<Rightarrow> js_string" where
  "to_string x = (case x of None \<Rightarrow> js ''undefined'' | Some s \<Rightarrow> s)"

section \<open>The document store\<close>

text \<open>
  The store is the external Firestore service: a collection \<^verbatim>\<open>api\<close> of documents keyed
  by slug and, for the extended health check, a collection \<^verbatim>\<open>healthcheck\<close>. A
  collection is an association list with one entry per document. \<open>calls\<close> records
  every call that reaches the store, in order, so that "no store operation was performed"
  can be stated. Timestamps are natural numbers (milliseconds).
\<close>

record api_document =
  name :: js_string
  jsonData :: json
  slug :: js_string
  createdAt :: nat
  updatedAt :: nat

datatype store_call =
    DocGet js_string js_string
  | DocSet js_string js_string
  | DocUpdate js_string js_string
  | DocDelete js_string js_string
  | CollectionGet js_string

record store =
  api :: "(js_string \<times> api_document) list"
  healthcheck :: "(js_string \<times> js_string) list"
  calls :: "store_call list"

text \<open>
  What a request finds around it: the time the store stamps on a write of this request
  (\<^verbatim>\<open>FieldValue.serverTimestamp()\<close>), the process clock (\<^verbatim>\<open>new Date()\<close>), which
  store calls fail and with which message, whether \<^verbatim>\<open>NODE_ENV\<close> is
  \<^verbatim>\<open>development\<close>, and the rendering of a time by \<^verbatim>\<open>toISOString\<close>.
\<close>

record env =
  serverTimestamp :: nat
  dateNow :: nat
  storeError :: "store_call \<Rightarrow> js_string option"
  nodeEnvDevelopment :: bool
  toISOString :: "nat \<Rightarrow> js_string"

definition log_call :: "store_call \<Rightarrow> store \<Rightarrow> store" where
  "log_call c st = st\<lparr>calls := calls st @ [c]\<rparr>"

definition doc_get :: "env \<Rightarrow> js_string \<Rightarrow> store \<Rightarrow> (js_string + api_document option) \<times> store" where
  "doc_get e k st =
     (case storeError e (DocGet (js ''api'') k) of
        Some err \<Rightarrow> (Inl err, log_call (DocGet (js ''api'') k) st)
      | None \<Rightarrow> (Inr (map_of (api st) k), log_call (DocGet (js ''api'') k) st))"

definition doc_set :: "env \<Rightarrow> js_string \<Rightarrow> api_document \<Rightarrow> store \<Rightarrow> (js_string + unit) \<times> store" where
  "doc_set e k d st =
     (case storeError e (DocSet (js ''api'') k) of
        Some err \<Rightarrow> (Inl err, log_call (DocSet (js ''api'') k) st)
      | None \<Rightarrow>
          (Inr (), log_call (DocSet (js ''api'') k) (st\<lparr>api := AList.update k d (api st)\<rparr>)))"

text \<open>
  \<^verbatim>\<open>docRef.update({jsonData: ..., updatedAt: serverTimestamp()})\<close> writes the two
  fields it names and keeps the others; on a missing document the store rejects it.
\<close>

definition doc_update :: "env \<Rightarrow> js_string \<Rightarrow> json \<Rightarrow> store \<Rightarrow> (js_string + unit) \<times> store" where
  "doc_update e k j st =
     (case storeError e (DocUpdate (js ''api'') k) of
        Some err \<Rightarrow> (Inl err, log_call (DocUpdate (js ''api'') k) st)
      | None \<Rightarrow>
          (case map_of (api st) k of
             None \<Rightarrow> (Inl (js ''NOT_FOUND''), log_call (DocUpdate (js ''api'') k) st)
           | Some d \<Rightarrow>
               (Inr (),
                log_call (DocUpdate (js ''api'') k)
                  (st\<lparr>api := AList.update k (d\<lparr>jsonData := j, updatedAt := serverTimestamp e\<rparr>)
                                (api st)\<rparr>))))"

definition doc_delete :: "env \<Rightarrow> js_string \<Rightarrow> store \<Rightarrow> (js_string + unit) \<times> store" where
  "doc_delete e k st =
     (case storeError e (DocDelete (js ''api'') k) of
        Some err \<Rightarrow> (Inl err, log_call (DocDelete (js ''api'') k) st)
      | None \<Rightarrow>
          (Inr (), log_call (DocDelete (js ''api'') k) (st\<lparr>api := AList.delete k (api st)\<rparr>)))"

text \<open>
  A collection read returns the documents ordered by document id; with
  \<^verbatim>\<open>orderBy('createdAt', 'desc')\<close> they come by decreasing \<open>createdAt\<close>, equal times by
  decreasing id. (Ids are compared here by code units; the store compares their UTF-8
  bytes, which is the same order for the ASCII ids that pass \<open>validateSlug\<close>.)
\<close>

definition collection_get :: "env \<Rightarrow> bool \<Rightarrow> store \<Rightarrow>
    (js_string + (js_string \<times> api_document) list) \<times> store" where
  "collection_get e by_createdAt_desc st =
     (case storeError e (CollectionGet (js ''api'')) of
        Some err \<Rightarrow> (Inl err, log_call (CollectionGet (js ''api'')) st)
      | None \<Rightarrow>
          (Inr (if by_createdAt_desc
                then rev (sort_key (\<lambda>p. (createdAt (snd p), fst p)) (api st))
                else sort_key fst (api st)),
           log_call (CollectionGet (js ''api'')) st))"

definition health_doc_set :: "env \<Rightarrow> js_string \<Rightarrow> js_string \<Rightarrow> store \<Rightarrow> (js_string + unit) \<times> store" where
  "health_doc_set e k t st =
     (case storeError e (DocSet (js ''healthcheck'') k) of
        Some err \<Rightarrow> (Inl err, log_call (DocSet (js ''healthcheck'') k) st)
      | None \<Rightarrow>
          (Inr (),
           log_call (DocSet (js ''healthcheck'') k)
             (st\<lparr>healthcheck := AList.update k t (healthcheck st)\<rparr>)))"

definition health_doc_get :: "env \<Rightarrow> js_string \<Rightarrow> store \<Rightarrow> (js_string + js_string option) \<times> store" where
  "health_doc_get e k st =
     (case storeError e (DocGet (js ''healthcheck'') k) of
        Some err \<Rightarrow> (Inl err, log_call (DocGet (js ''healthcheck'') k) st)
      | None \<Rightarrow> (Inr (map_of (healthcheck st) k), log_call (DocGet (js ''healthcheck'') k) st))"

section \<open>Requests and responses\<close>

record request_body =
  body_name :: "js_string option"
  body_jsonData :: "js_string option"
  body_slug :: "js_string option"

record response =
  status :: nat
  payload :: json

definition error_body :: "string \<Rightarrow> json" where
  "error_body msg = JObject [(js ''error'', JString (js msg))]"

text \<open>
  The second server file adds \<^verbatim>\<open>details\<close> to a 500 body: the error's message in
  development mode and \<^verbatim>\<open>undefined\<close> otherwise, which \<^verbatim>\<open>res.json\<close> leaves out.
\<close>

definition internal_error_flat :: response where
  "internal_error_flat = \<lparr>status = 500, payload = error_body ''Internal server error''\<rparr>"

definition internal_error_api :: "env \<Rightarrow> js_string \<Rightarrow> response" where
  "internal_error_api e err =
     \<lparr>status = 500,
      payload = JObject ((js ''error'', JString (js ''Internal server error'')) #
                         (if nodeEnvDevelopment e then [(js ''details'', JString err)] else []))\<rparr>"

definition success_body :: "string \<Rightarrow> json" where
  "success_body msg = JObject [(js ''success'', JBool True), (js ''message'', JString (js msg))]"

definition created_body :: "js_string \<Rightarrow> string \<Rightarrow> json" where
  "created_body endpoint msg =
     JObject [(js ''success'', JBool True), (js ''endpoint'', JString endpoint),
              (js ''message'', JString (js msg))]"

section \<open>The handlers of \<^verbatim>\<open>src/backend/server.js\<close> (flat paths)\<close>

text \<open>
  The envelope that \<^verbatim>\<open>server.js\<close> builds as \<^verbatim>\<open>responseData\<close>:
  \<^verbatim>\<open>{result: "SUCCESS", data: ..., message: "Success"}\<close>.
\<close>

definition envelope :: "json \<Rightarrow> json" where
  "envelope v = JObject [(js ''result'', JString (js ''SUCCESS'')), (js ''data'', v),
                         (js ''message'', JString (js ''Success''))]"

text \<open>
  \<^verbatim>\<open>app.post('/create', ...)\<close>. The stored \<open>jsonData\<close> is the envelope around
  \<^verbatim>\<open>parsedJson\<close>.
\<close>

definition create_flat :: "env \<Rightarrow> request_body \<Rightarrow> store \<Rightarrow> response \<times> store" where
  "create_flat e b st =
     (if \<not> truthy_field (body_name b) \<or> \<not> truthy_field (body_jsonData b)
         \<or> \<not> truthy_field (body_slug b)
      then (\<lparr>status = 400, payload = error_body ''Missing required fields''\<rparr>, st)
      else if \<not> validateSlug (to_string (body_slug b))
      then (\<lparr>status = 400, payload = error_body ''Invalid slug format''\<rparr>, st)
      else
        let parsedJson = validateJSON (to_string (body_jsonData b)) in
        if \<not> truthy parsedJson
        then (\<lparr>status = 400, payload = error_body ''Invalid JSON data''\<rparr>, st)
        else
          (case doc_get e (to_string (body_slug b)) st of
             (Inl err, st1) \<Rightarrow> (internal_error_flat, st1)
           | (Inr doc, st1) \<Rightarrow>
               if doc \<noteq> None
               then (\<lparr>status = 409, payload = error_body ''Slug already exists''\<rparr>, st1)
               else
                 let responseData = envelope parsedJson in
                 (case doc_set e (to_string (body_slug b))
                         \<lparr>name = to_string (body_name b),
                          jsonData = responseData,
                          slug = to_string (body_slug b),
                          createdAt = serverTimestamp e,
                          updatedAt = serverTimestamp e\<rparr> st1 of
                    (Inl err, st2) \<Rightarrow> (internal_error_flat, st2)
                  | (Inr u, st2) \<Rightarrow>
                      (\<lparr>status = 201,
                        payload = created_body (cu CHR ''/'' # to_string (body_slug b))
                                    ''API Created''\<rparr>, st2))))"

text \<open>\<^verbatim>\<open>app.get('/:slug', ...)\<close>: no slug check; \<^verbatim>\<open>res.json(data.jsonData)\<close>.\<close>

definition read_flat :: "env \<Rightarrow> js_string \<Rightarrow> request_body \<Rightarrow> store \<Rightarrow> response \<times> store" where
  "read_flat e param_slug b st =
     (case doc_get e param_slug st of
        (Inl err, st1) \<Rightarrow> (internal_error_flat, st1)
      | (Inr None, st1) \<Rightarrow> (\<lparr>status = 404, payload = error_body ''Endpoint not found''\<rparr>, st1)
      | (Inr (Some d), st1) \<Rightarrow> (\<lparr>status = 200, payload = jsonData d\<rparr>, st1))"

text \<open>
  \<^verbatim>\<open>app.put('/:slug', ...)\<close>: no slug check; the envelope's \<^verbatim>\<open>data\<close> is the
  one-element array \<^verbatim>\<open>[parsedJson]\<close>.
\<close>

definition update_flat :: "env \<Rightarrow> js_string \<Rightarrow> request_body \<Rightarrow> store \<Rightarrow> response \<times> store" where
  "update_flat e param_slug b st =
     (if \<not> truthy_field (body_jsonData b)
      then (\<lparr>status = 400, payload = error_body ''JSON data is required''\<rparr>, st)
      else
        let parsedJson = validateJSON (to_string (body_jsonData b)) in
        if \<not> truthy parsedJson
        then (\<lparr>status = 400, payload = error_body ''Invalid JSON data''\<rparr>, st)
        else
          (case doc_get e param_slug st of
             (Inl err, st1) \<Rightarrow> (internal_error_flat, st1)
           | (Inr None, st1) \<Rightarrow>
               (\<lparr>status = 404, payload = error_body ''Endpoint not found''\<rparr>, st1)
           | (Inr (Some d), st1) \<Rightarrow>
               let responseData = envelope (JArray [parsedJson]) in
               (case doc_update e param_slug responseData st1 of
                  (Inl err, st2) \<Rightarrow> (internal_error_flat, st2)
                | (Inr u, st2) \<Rightarrow>
                    (\<lparr>status = 200, payload = success_body ''API Updated''\<rparr>, st2))))"

text \<open>\<^verbatim>\<open>app.delete('/:slug', ...)\<close>.\<close>

definition delete_flat :: "env \<Rightarrow> js_string \<Rightarrow> request_body \<Rightarrow> store \<Rightarrow> response \<times> store" where
  "delete_flat e param_slug b st =
     (case doc_get e param_slug st of
        (Inl err, st1) \<Rightarrow> (internal_error_flat, st1)
      | (Inr None, st1) \<Rightarrow> (\<lparr>status = 404, payload = error_body ''Endpoint not found''\<rparr>, st1)
      | (Inr (Some d), st1) \<Rightarrow>
          (case doc_delete e param_slug st1 of
             (Inl err, st2) \<Rightarrow> (internal_error_flat, st2)
           | (Inr u, st2) \<Rightarrow>
               (\<lparr>status = 200, payload = success_body ''API Deleted''\<rparr>, st2)))"

text \<open>
  \<^verbatim>\<open>app.get('/', ...)\<close>: each document becomes \<^verbatim>\<open>{slug, name, createdAt}\<close>, the
  time as \<^verbatim>\<open>res.json\<close> prints a Date; the body is \<^verbatim>\<open>{endpoints}\<close>.
\<close>

definition list_entry_flat :: "env \<Rightarrow> js_string \<times> api_document \<Rightarrow> json" where
  "list_entry_flat e p =
     JObject [(js ''slug'', JString (slug (snd p))),
              (js ''name'', JString (name (snd p))),
              (js ''createdAt'', JString (toISOString e (createdAt (snd p))))]"

definition list_flat :: "env \<Rightarrow> request_body \<Rightarrow> store \<Rightarrow> response \<times> store" where
  "list_flat e b st =
     (case collection_get e True st of
        (Inl err, st1) \<Rightarrow> (internal_error_flat, st1)
      | (Inr docs, st1) \<Rightarrow>
          (\<lparr>status = 200,
            payload = JObject [(js ''endpoints'', JArray (map (list_entry_flat e) docs))]\<rparr>,
           st1))"

text \<open>\<^verbatim>\<open>app.get('/health', ...)\<close>, as written (see the routing below).\<close>

definition health_flat :: "env \<Rightarrow> request_body \<Rightarrow> store \<Rightarrow> response \<times> store" where
  "health_flat e b st =
     (\<lparr>status = 200,
       payload = JObject [(js ''status'', JString (js ''OK'')),
                          (js ''timestamp'', JString (toISOString e (dateNow e)))]\<rparr>, st)"

definition not_found_flat :: "env \<Rightarrow> request_body \<Rightarrow> store \<Rightarrow> response \<times> store" where
  "not_found_flat e b st = (\<lparr>status = 404, payload = error_body ''Endpoint not found''\<rparr>, st)"

section \<open>The handlers of the second server file (paths under \<^verbatim>\<open>/api\<close>)\<close>

text \<open>
  \<^verbatim>\<open>app.post('/api/create', ...)\<close>: as above, but \<open>jsonData\<close> is stored as parsed.
\<close>

definition create_api :: "env \<Rightarrow> request_body \<Rightarrow> store \<Rightarrow> response \<times> store" where
  "create_api e b st =
     (if \<not> truthy_field (body_name b) \<or> \<not> truthy_field (body_jsonData b)
         \<or> \<not> truthy_field (body_slug b)
      then (\<lparr>status = 400, payload = error_body ''Missing required fields''\<rparr>, st)
      else if \<not> validateSlug (to_string (body_slug b))
      then (\<lparr>status = 400,
             payload = error_body
               ''Invalid slug format. Only lowercase letters, numbers, and hyphens are allowed.''\<rparr>,
            st)
      else
        let parsedJson = validateJSON (to_string (body_jsonData b)) in
        if \<not> truthy parsedJson
        then (\<lparr>status = 400, payload = error_body ''Invalid JSON data''\<rparr>, st)
        else
          (case doc_get e (to_string (body_slug b)) st of
             (Inl err, st1) \<Rightarrow> (internal_error_api e err, st1)
           | (Inr doc, st1) \<Rightarrow>
               if doc \<noteq> None
               then (\<lparr>status = 409, payload = error_body ''Slug already exists''\<rparr>, st1)
               else
                 (case doc_set e (to_string (body_slug b))
                         \<lparr>name = to_string (body_name b),
                          jsonData = parsedJson,
                          slug = to_string (body_slug b),
                          createdAt = serverTimestamp e,
                          updatedAt = serverTimestamp e\<rparr> st1 of
                    (Inl err, st2) \<Rightarrow> (internal_error_api e err, st2)
                  | (Inr u, st2) \<Rightarrow>
                      (\<lparr>status = 201,
                        payload = created_body (js ''/api/'' @ to_string (body_slug b))
                                    ''API endpoint created successfully''\<rparr>, st2))))"

text \<open>\<^verbatim>\<open>app.get('/api/:slug', ...)\<close>.\<close>

definition read_api :: "env \<Rightarrow> js_string \<Rightarrow> request_body \<Rightarrow> store \<Rightarrow> response \<times> store" where
  "read_api e param_slug b st =
     (if \<not> validateSlug param_slug
      then (\<lparr>status = 400, payload = error_body ''Invalid slug format''\<rparr>, st)
      else
        (case doc_get e param_slug st of
           (Inl err, st1) \<Rightarrow> (internal_error_api e err, st1)
         | (Inr None, st1) \<Rightarrow>
             (\<lparr>status = 404, payload = error_body ''Endpoint not found''\<rparr>, st1)
         | (Inr (Some d), st1) \<Rightarrow> (\<lparr>status = 200, payload = jsonData d\<rparr>, st1)))"

text \<open>
  \<^verbatim>\<open>app.put('/api/:slug', ...)\<close>: \<^verbatim>\<open>jsonData\<close> goes to \<^verbatim>\<open>validateJSON\<close> without a
  presence test, so a missing field is parsed as the text \<^verbatim>\<open>undefined\<close>.
\<close>

definition update_api :: "env \<Rightarrow> js_string \<Rightarrow> request_body \<Rightarrow> store \<Rightarrow> response \<times> store" where
  "update_api e param_slug b st =
     (if \<not> validateSlug param_slug
      then (\<lparr>status = 400, payload = error_body ''Invalid slug format''\<rparr>, st)
      else
        let parsedJson = validateJSON (to_string (body_jsonData b)) in
        if \<not> truthy parsedJson
        then (\<lparr>status = 400, payload = error_body ''Invalid JSON data''\<rparr>, st)
        else
          (case doc_get e param_slug st of
             (Inl err, st1) \<Rightarrow> (internal_error_api e err, st1)
           | (Inr None, st1) \<Rightarrow>
               (\<lparr>status = 404, payload = error_body ''Endpoint not found''\<rparr>, st1)
           | (Inr (Some d), st1) \<Rightarrow>
               (case doc_update e param_slug parsedJson st1 of
                  (Inl err, st2) \<Rightarrow> (internal_error_api e err, st2)
                | (Inr u, st2) \<Rightarrow>
                    (\<lparr>status = 200,
                      payload = success_body ''Endpoint updated successfully''\<rparr>, st2))))"

text \<open>\<^verbatim>\<open>app.delete('/api/:slug', ...)\<close>.\<close>

definition delete_api :: "env \<Rightarrow> js_string \<Rightarrow> request_body \<Rightarrow> store \<Rightarrow> response \<times> store" where
  "delete_api e param_slug b st =
     (if \<not> validateSlug param_slug
      then (\<lparr>status = 400, payload = error_body ''Invalid slug format''\<rparr>, st)
      else
        (case doc_get e param_slug st of
           (Inl err, st1) \<Rightarrow> (internal_error_api e err, st1)
         | (Inr None, st1) \<Rightarrow>
             (\<lparr>status = 404, payload = error_body ''Endpoint not found''\<rparr>, st1)
         | (Inr (Some d), st1) \<Rightarrow>
             (case doc_delete e param_slug st1 of
                (Inl err, st2) \<Rightarrow> (internal_error_api e err, st2)
              | (Inr u, st2) \<Rightarrow>
                  (\<lparr>status = 200,
                    payload = success_body ''Endpoint deleted successfully''\<rparr>, st2))))"

text \<open>
  \<^verbatim>\<open>app.get('/api', ...)\<close>: entries \<^verbatim>\<open>{slug: doc.id, name, createdAt, endpoint}\<close> and
  the body \<^verbatim>\<open>{count: endpoints.length, endpoints}\<close>.
\<close>

definition list_entry_api :: "env \<Rightarrow> js_string \<times> api_document \<Rightarrow> json" where
  "list_entry_api e p =
     JObject [(js ''slug'', JString (fst p)),
              (js ''name'', JString (name (snd p))),
              (js ''createdAt'', JString (toISOString e (createdAt (snd p)))),
              (js ''endpoint'', JString (js ''/api/'' @ fst p))]"

definition list_api :: "env \<Rightarrow> request_body \<Rightarrow> store \<Rightarrow> response \<times> store" where
  "list_api e b st =
     (case collection_get e False st of
        (Inl err, st1) \<Rightarrow> (internal_error_api e err, st1)
      | (Inr docs, st1) \<Rightarrow>
          let endpoints = map (list_entry_api e) docs in
          (\<lparr>status = 200,
            payload = JObject [(js ''count'', JNum (of_nat (length endpoints))),
                               (js ''endpoints'', JArray endpoints)]\<rparr>,
           st1))"

text \<open>\<^verbatim>\<open>app.get('/api/health', ...)\<close>.\<close>

definition health_api :: "env \<Rightarrow> request_body \<Rightarrow> store \<Rightarrow> response \<times> store" where
  "health_api e b st =
     (\<lparr>status = 200,
       payload = JObject [(js ''status'', JString (js ''OK'')),
                          (js ''message'', JString (js ''API is running'')),
                          (js ''timestamp'', JString (toISOString e (dateNow e)))]\<rparr>, st)"

text \<open>
  The extended \<^verbatim>\<open>app.get('/health', ...)\<close>: writes the document \<^verbatim>\<open>healthcheck/test\<close>,
  reads it back and reports; any store error gives 500 with the error's message. The
  application is initialised once before the server starts, so
  \<^verbatim>\<open>!!admin.apps.length\<close> is \<^verbatim>\<open>true\<close>.
\<close>

definition health_extended :: "env \<Rightarrow> request_body \<Rightarrow> store \<Rightarrow> response \<times> store" where
  "health_extended e b st =
     (let failed = (\<lambda>err. \<lparr>status = 500,
                             payload = JObject [(js ''status'', JString (js ''ERROR'')),
                                                (js ''error'', JString err),
                                                (js ''timestamp'',
                                                 JString (toISOString e (dateNow e)))]\<rparr>)
      in
      case health_doc_set e (js ''test'') (toISOString e (dateNow e)) st of
        (Inl err, st1) \<Rightarrow> (failed err, st1)
      | (Inr u, st1) \<Rightarrow>
          (case health_doc_get e (js ''test'') st1 of
             (Inl err, st2) \<Rightarrow> (failed err, st2)
           | (Inr doc, st2) \<Rightarrow>
               (\<lparr>status = 200,
                 payload = JObject [(js ''status'', JString (js ''OK'')),
                                    (js ''firebase'', JBool True),
                                    (js ''database'', JBool (doc \<noteq> None)),
                                    (js ''timestamp'', JString (toISOString e (dateNow e)))]\<rparr>,
                st2)))"

definition available_endpoints :: "string list \<Rightarrow> json" where
  "available_endpoints xs = JArray (map (\<lambda>x. JString (js x)) xs)"

text \<open>\<^verbatim>\<open>app.get('/', ...)\<close> of the second file: a fixed description of the service.\<close>

definition root_api :: "env \<Rightarrow> request_body \<Rightarrow> store \<Rightarrow> response \<times> store" where
  "root_api e b st =
     (\<lparr>status = 200,
       payload =
         JObject [(js ''message'', JString (js ''JSONSpark API Service'')),
                  (js ''version'', JString (js ''1.0.0'')),
                  (js ''endpoints'',
                   JObject [(js ''healthCheck'', JString (js ''/health'')),
                            (js ''apiDocumentation'', JString (js ''Coming soon'')),
                            (js ''availableEndpoints'',
                             available_endpoints
                               [''GET /api/health'', ''POST /api/create'', ''GET /api/:slug'',
                                ''PUT /api/:slug'', ''DELETE /api/:slug'', ''GET /api''])])]\<rparr>,
      st)"

definition not_found_api :: "env \<Rightarrow> request_body \<Rightarrow> store \<Rightarrow> response \<times> store" where
  "not_found_api e b st =
     (\<lparr>status = 404,
       payload =
         JObject [(js ''error'', JString (js ''Endpoint not found'')),
                  (js ''availableEndpoints'',
                   available_endpoints
                     [''GET /'', ''GET /health'', ''GET /api/health'', ''POST /api/create'',
                      ''GET /api/:slug'', ''PUT /api/:slug'', ''DELETE /api/:slug'',
                      ''GET /api''])]\<rparr>,
      st)"

section \<open>Routing\<close>

text \<open>
  Express tries the routes in the order in which the file registers them and runs the
  first one whose verb and path match; none of the handlers passes the request on. A
  path is given by its decoded segments (\<^verbatim>\<open>/api/x\<close> is \<open>[api, x]\<close>, \<^verbatim>\<open>/\<close> is
  \<open>[]\<close>). A literal segment matches without regard to ASCII case (routing is not
  case sensitive by default); \<^verbatim>\<open>:slug\<close> matches any one non-empty segment. The
  middleware in front of the routes (CORS, body parsing, rate limiting) is not part of
  the model: a request here is one that they let through.
\<close>

datatype http_verb = GET | POST | PUT | DELETE

record request =
  verb :: http_verb
  path :: "js_string list"
  body :: request_body

type_synonym handler = "env \<Rightarrow> request_body \<Rightarrow> store \<Rightarrow> response \<times> store"

datatype route =
    Static http_verb "string list" handler
  | WithSlug http_verb "string list"
      "env \<Rightarrow> js_string \<Rightarrow> request_body \<Rightarrow> store \<Rightarrow> response \<times> store"

definition ascii_lower :: "code_unit \<Rightarrow> code_unit" where
  "ascii_lower c = (if 0x41 \<le> c \<and> c \<le> 0x5A then c + 0x20 else c)"

definition segment_matches :: "string \<Rightarrow> js_string \<Rightarrow> bool" where
  "segment_matches lit seg = (map ascii_lower (js lit) = map ascii_lower seg)"

fun literals_match :: "string list \<Rightarrow> js_string list \<Rightarrow> js_string list option" where
  "literals_match [] segs = Some segs"
| "literals_match (l # ls) [] = None"
| "literals_match (l # ls) (x # xs) =
     (if segment_matches l x then literals_match ls xs else None)"

fun route_match :: "route \<Rightarrow> request \<Rightarrow> handler option" where
  "route_match (Static v lits h) req =
     (if v = verb req \<and> literals_match lits (path req) = Some [] then Some h else None)"
| "route_match (WithSlug v lits h) req =
     (if v = verb req then
        (case literals_match lits (path req) of
           Some [seg] \<Rightarrow> if seg \<noteq> [] then Some (\<lambda>e. h e seg) else None
         | _ \<Rightarrow> None)
      else None)"

fun dispatch :: "route list \<Rightarrow> handler \<Rightarrow> env \<Rightarrow> request \<Rightarrow> store \<Rightarrow> response \<times> store" where
  "dispatch [] fallback e req st = fallback e (body req) st"
| "dispatch (r # rs) fallback e req st =
     (case route_match r req of
        Some h \<Rightarrow> h e (body req) st
      | None \<Rightarrow> dispatch rs fallback e req st)"

text \<open>The routes of \<^verbatim>\<open>src/backend/server.js\<close>, in the file's order.\<close>

definition routes_flat :: "route list" where
  "routes_flat =
     [Static POST [''create''] create_flat,
      WithSlug GET [] read_flat,
      WithSlug PUT [] update_flat,
      WithSlug DELETE [] delete_flat,
      Static GET [] list_flat,
      Static GET [''health''] health_flat]"

definition server_flat :: "env \<Rightarrow> request \<Rightarrow> store \<Rightarrow> response \<times> store" where
  "server_flat = dispatch routes_flat not_found_flat"

text \<open>The routes of the second server file, in the file's order.\<close>

definition routes_api :: "route list" where
  "routes_api =
     [Static GET [''api'', ''health''] health_api,
      Static POST [''api'', ''create''] create_api,
      WithSlug GET [''api''] read_api,
      WithSlug PUT [''api''] update_api,
      WithSlug DELETE [''api''] delete_api,
      Static GET [''api''] list_api,
      Static GET [''health''] health_extended,
      Static GET [] root_api]"

definition server_api :: "env \<Rightarrow> request \<Rightarrow> store \<Rightarrow> response \<times> store" where
  "server_api = dispatch routes_api not_found_api"

text \<open>Concrete surroundings for the examples: no store failure, production mode.\<close>

definition quiet_env :: "nat \<Rightarrow> env" where
  "quiet_env t =
     \<lparr>serverTimestamp = t, dateNow = t, storeError = (\<lambda>c. None),
      nodeEnvDevelopment = False, toISOString = (\<lambda>n. [])\<rparr>"

definition empty_store :: store where
  "empty_store = \<lparr>api = [], healthcheck = [], calls = []\<rparr>"

definition create_body :: "js_string \<Rightarrow> js_string \<Rightarrow> js_string \<Rightarrow> request_body" where
  "create_body n j s = \<lparr>body_name = Some n, body_jsonData = Some j, body_slug = Some s\<rparr>"

definition put_body :: "js_string \<Rightarrow> request_body" where
  "put_body j = \<lparr>body_name = None, body_jsonData = Some j, body_slug = None\<rparr>"

definition no_body :: request_body where
  "no_body = \<lparr>body_name = None, body_jsonData = None, body_slug = None\<rparr>"

section \<open>Notions used to state the claims\<close>

text \<open>The two responses that the claims name.\<close>

definition invalid_json_response :: response where
  "invalid_json_response = \<lparr>status = 400, payload = error_body ''Invalid JSON data''\<rparr>"

definition conflict_response :: response where
  "conflict_response = \<lparr>status = 409, payload = error_body ''Slug already exists''\<rparr>"

text \<open>The keys of a JSON object, in order (no keys for any other value).\<close>

definition object_keys :: "json \<Rightarrow> js_string list" where
  "object_keys v = (case v of JObject kvs \<Rightarrow> map fst kvs | _ \<Rightarrow> [])"

text \<open>
  The timestamp invariant: every stored document was created no later than it was last
  updated, and no stamp lies after the time \<open>t\<close>. The store issues the stamps; that its
  clock never runs backwards is the hypothesis \<open>t \<le> serverTimestamp e\<close> of the
  theorems that use \<open>stamps_ok\<close>.
\<close>

definition stamps_ok :: "nat \<Rightarrow> store \<Rightarrow> bool" where
  "stamps_ok t st =
     list_all (\<lambda>p. createdAt (snd p) \<le> updatedAt (snd p) \<and> updatedAt (snd p) \<le> t) (api st)"





text \<open>Request bodies for the examples.\<close>

definition widget_v1 :: request_body where
  "widget_v1 = create_body (js ''Widgets'') (js ''[1]'') (js ''widgets'')"

definition widget_v2 :: request_body where
  "widget_v2 = create_body (js ''Other'') (js ''[2]'') (js ''widgets'')"

definition null_widget :: request_body where
  "null_widget = create_body (js ''Widgets'') (js ''null'') (js ''widgets'')"

section \<open>Facts about the slug validator\<close>

lemma in_slug_class: "in_class slug_class = slug_char"
  by (rule ext) (simp add: in_class_def slug_class_def slug_char_def
      lowercase_ascii_letter_def ascii_digit_def hyphen_def cu_def)

lemma match_plus_end:
  "match_here [OneOrMore cls, AssertEnd] b s = (s \<noteq> [] \<and> list_all (in_class cls) s)"
proof (induction s arbitrary: b)
  case Nil
  show ?case by simp
next
  case (Cons c s)
  show ?case
  proof (cases s)
    case Nil
    then show ?thesis by simp
  next
    case (Cons d t)
    with Cons.IH [of False] show ?thesis by auto
  qed
qed

lemma search_not_at_start:
  "regexp_search (AssertStart # r) False s = False"
  by (induction s) auto

lemma regexp_test_slug_pattern:
  "regexp_test slug_pattern s = (s \<noteq> [] \<and> list_all slug_char s)"
proof (cases s)
  case Nil
  then show ?thesis by (simp add: regexp_test_def slug_pattern_def)
next
  case (Cons c t)
  have "match_here slug_pattern True s = (s \<noteq> [] \<and> list_all (in_class slug_class) s)"
    by (simp add: slug_pattern_def match_plus_end)
  moreover have "regexp_search slug_pattern False t = False"
    by (simp add: slug_pattern_def search_not_at_start)
  ultimately show ?thesis
    using Cons by (simp add: regexp_test_def in_slug_class)
qed

section \<open>Evaluation rules and facts about the handlers\<close>

text \<open>
  The definitions that \<open>simp\<close> unfolds to run the parser, the slug test and the
  servers on concrete inputs.
\<close>

lemmas gateway_defs = doc_get_def doc_set_def doc_update_def doc_delete_def collection_get_def
  health_doc_set_def health_doc_get_def log_call_def















lemmas json_eval = JSON_parse_def validateJSON_def js_def cu_def skip_ws_def is_ws_def is_digit_def
  parse_number_def parse_int_part_def parse_frac_def parse_exp_def parse_sign_def
  strip_literal_def make_object_def digits_val_def digit_val_def pow10_def hex4_def hex_val_def
  simple_escape_def parse_elements.simps parse_members.simps

lemmas slug_eval = validateSlug_def regexp_test_def slug_pattern_def slug_class_def in_class_def

lemmas server_eval = server_flat_def server_api_def routes_flat_def routes_api_def
  segment_matches_def ascii_lower_def quiet_env_def empty_store_def no_body_def create_body_def
  put_body_def truthy_field_def to_string_def gateway_defs Let_def







lemma not_valid_My_Slug: "\<not> validateSlug (js ''My_Slug'')"
  by (simp add: slug_eval js_def cu_def)

lemma slug_enforced_api:
  assumes "\<not> validateSlug s"
  shows "status (fst (read_api e s b st)) = 400 \<and> snd (read_api e s b st) = st"
    and "status (fst (update_api e s b st)) = 400 \<and> snd (update_api e s b st) = st"
    and "status (fst (delete_api e s b st)) = 400 \<and> snd (delete_api e s b st) = st"
    and "body_slug b = Some s \<Longrightarrow>
         status (fst (create_api e b st)) = 400 \<and> snd (create_api e b st) = st"
    and "body_slug b = Some s \<Longrightarrow>
         status (fst (create_flat e b st)) = 400 \<and> snd (create_flat e b st) = st"
  using assms
  by (simp_all add: read_api_def update_api_def delete_api_def create_api_def create_flat_def
      to_string_def)

lemma read_flat_calls_store:
  "calls (snd (read_flat e s b st)) = calls st @ [DocGet (js ''api'') s]"
  by (simp add: read_flat_def gateway_defs split: option.splits)

lemma read_flat_status:
  "status (fst (read_flat e s b st)) =
     (if storeError e (DocGet (js ''api'') s) \<noteq> None then 500
      else if map_of (api st) s = None then 404 else 200)"
  by (simp add: read_flat_def gateway_defs internal_error_flat_def split: option.splits)

lemma delete_flat_status:
  "status (fst (delete_flat e s b st)) \<noteq> 400
   \<and> (\<exists>cs. calls (snd (delete_flat e s b st)) = calls st @ DocGet (js ''api'') s # cs)"
  by (simp add: delete_flat_def gateway_defs internal_error_flat_def split: option.splits)

lemma route_health_flat:
  "server_flat e \<lparr>verb = GET, path = [js ''health''], body = b\<rparr> st = read_flat e (js ''health'') b st"
  by (simp add: server_flat_def routes_flat_def segment_matches_def js_def cu_def)

lemma health_api_ok:
  "server_api e \<lparr>verb = GET, path = [js ''api'', js ''health''], body = b\<rparr> st
   = (\<lparr>status = 200,
       payload = JObject [(js ''status'', JString (js ''OK'')),
                          (js ''message'', JString (js ''API is running'')),
                          (js ''timestamp'', JString (toISOString e (dateNow e)))]\<rparr>, st)"
  by (simp add: server_api_def routes_api_def segment_matches_def js_def cu_def health_api_def)

lemma route_health_extended:
  "server_api e \<lparr>verb = GET, path = [js ''health''], body = b\<rparr> st = health_extended e b st"
  by (simp add: server_api_def routes_api_def segment_matches_def js_def cu_def ascii_lower_def)

lemma health_extended_status:
  "status (fst (health_extended e b st)) =
     (if storeError e (DocSet (js ''healthcheck'') (js ''test'')) = None
         \<and> storeError e (DocGet (js ''healthcheck'') (js ''test'')) = None then 200 else 500)"
  by (simp add: health_extended_def gateway_defs Let_def split: option.splits)

lemma JSON_parse_Nil: "JSON_parse [] = None"
  by (simp add: JSON_parse_def skip_ws_def)

lemma JSON_parse_Some_nonempty: "JSON_parse j = Some v \<Longrightarrow> j \<noteq> []"
  using JSON_parse_Nil by auto

lemma validateJSON_Some: "JSON_parse j = Some v \<Longrightarrow> validateJSON j = v"
  by (simp add: validateJSON_def)

lemma js_append: "js a @ js b = js (a @ b)"
  by (simp add: js_def)

lemma js_eq_Nil: "(js s = []) = (s = [])"
  by (simp add: js_def)

lemma validateSlug_Nil: "\<not> validateSlug []"
  by (simp add: validateSlug_def regexp_test_slug_pattern)

lemma create_flat_existing:
  assumes "map_of (api st) s = Some d" and "body_slug b = Some s"
  shows "api (snd (create_flat e b st)) = api st"
    and "truthy_field (body_name b) \<Longrightarrow> truthy_field (body_jsonData b) \<Longrightarrow> validateSlug s \<Longrightarrow>
         truthy (validateJSON (to_string (body_jsonData b))) \<Longrightarrow>
         storeError e (DocGet (js ''api'') s) = None \<Longrightarrow>
         create_flat e b st = (conflict_response, log_call (DocGet (js ''api'') s) st)"
  using assms validateSlug_Nil
  by (auto simp add: create_flat_def Let_def gateway_defs to_string_def truthy_field_def
      conflict_response_def split: option.splits)

lemma create_api_existing:
  assumes "map_of (api st) s = Some d" and "body_slug b = Some s"
  shows "api (snd (create_api e b st)) = api st"
    and "truthy_field (body_name b) \<Longrightarrow> truthy_field (body_jsonData b) \<Longrightarrow> validateSlug s \<Longrightarrow>
         truthy (validateJSON (to_string (body_jsonData b))) \<Longrightarrow>
         storeError e (DocGet (js ''api'') s) = None \<Longrightarrow>
         create_api e b st = (conflict_response, log_call (DocGet (js ''api'') s) st)"
  using assms validateSlug_Nil
  by (auto simp add: create_api_def Let_def gateway_defs to_string_def truthy_field_def
      conflict_response_def split: option.splits)

lemma parse_array_1: "validateJSON (js ''[1]'') = JArray [JNum 1]"
  by (simp add: json_eval)

lemma parse_array_2: "validateJSON (js ''[2]'') = JArray [JNum 2]"
  by (simp add: json_eval)

lemma valid_widgets: "validateSlug (js ''widgets'')"
  by (simp add: slug_eval js_def cu_def)

lemma first_create_api:
  "create_api (quiet_env 10) widget_v1 empty_store =
     (\<lparr>status = 201,
       payload = created_body (js ''/api/widgets'') ''API endpoint created successfully''\<rparr>,
      \<lparr>api = [(js ''widgets'',
                \<lparr>name = js ''Widgets'', jsonData = JArray [JNum 1], slug = js ''widgets'',
                 createdAt = 10, updatedAt = 10\<rparr>)],
       healthcheck = [],
       calls = [DocGet (js ''api'') (js ''widgets''), DocSet (js ''api'') (js ''widgets'')]\<rparr>)"
  by (simp add: create_api_def widget_v1_def create_body_def truthy_field_def to_string_def
      valid_widgets parse_array_1 gateway_defs quiet_env_def empty_store_def Let_def js_eq_Nil
      js_append)

lemma create_flat_bad_json_iff:
  assumes "JSON_parse j = Some v" and "body_jsonData b = Some j"
    and "truthy_field (body_name b)" and "truthy_field (body_slug b)"
    and "validateSlug (to_string (body_slug b))"
  shows "(fst (create_flat e b st) = invalid_json_response) = (\<not> truthy v)"
  using assms JSON_parse_Some_nonempty [OF assms(1)] validateJSON_Some [OF assms(1)]
  by (auto simp add: create_flat_def Let_def gateway_defs to_string_def truthy_field_def
      invalid_json_response_def internal_error_flat_def split: option.splits)

lemma create_api_bad_json_iff:
  assumes "JSON_parse j = Some v" and "body_jsonData b = Some j"
    and "truthy_field (body_name b)" and "truthy_field (body_slug b)"
    and "validateSlug (to_string (body_slug b))"
  shows "(fst (create_api e b st) = invalid_json_response) = (\<not> truthy v)"
  using assms JSON_parse_Some_nonempty [OF assms(1)] validateJSON_Some [OF assms(1)]
  by (auto simp add: create_api_def Let_def gateway_defs to_string_def truthy_field_def
      invalid_json_response_def internal_error_api_def split: option.splits)

lemma update_flat_bad_json_iff:
  assumes "JSON_parse j = Some v" and "body_jsonData b = Some j"
  shows "(fst (update_flat e s b st) = invalid_json_response) = (\<not> truthy v)"
  using assms JSON_parse_Some_nonempty [OF assms(1)] validateJSON_Some [OF assms(1)]
  by (auto simp add: update_flat_def Let_def gateway_defs to_string_def truthy_field_def
      invalid_json_response_def internal_error_flat_def split: option.splits)

lemma update_api_bad_json_iff:
  assumes "JSON_parse j = Some v" and "body_jsonData b = Some j" and "validateSlug s"
  shows "(fst (update_api e s b st) = invalid_json_response) = (\<not> truthy v)"
  using assms JSON_parse_Some_nonempty [OF assms(1)] validateJSON_Some [OF assms(1)]
  by (auto simp add: update_api_def Let_def gateway_defs to_string_def truthy_field_def
      invalid_json_response_def internal_error_api_def split: option.splits)

lemma falsy_examples:
  \<open>JSON_parse (js ''null'') = Some JNull \<and> JSON_parse (js ''false'') = Some (JBool False)
   \<and> JSON_parse (js ''0'') = Some (JNum 0) \<and> JSON_parse (js ''""'') = Some (JString [])\<close>
  by (simp add: json_eval)






lemma list_api_ok:
  assumes "storeError e (CollectionGet (js ''api'')) = None"
  shows "fst (list_api e b st) =
           \<lparr>status = 200,
            payload = JObject [(js ''count'', JNum (of_nat (length (api st)))),
                               (js ''endpoints'',
                                JArray (map (list_entry_api e) (sort_key fst (api st))))]\<rparr>"
  using assms by (simp add: list_api_def gateway_defs Let_def)

lemma list_flat_ok:
  assumes "storeError e (CollectionGet (js ''api'')) = None"
  shows "fst (list_flat e b st) =
           \<lparr>status = 200,
            payload = JObject [(js ''endpoints'',
                                JArray (map (list_entry_flat e)
                                  (rev (sort_key (\<lambda>p. (createdAt (snd p), fst p)) (api st)))))]\<rparr>"
  using assms by (simp add: list_flat_def gateway_defs Let_def)

lemma keys_entry_api:
  "object_keys (list_entry_api e p) = [js ''slug'', js ''name'', js ''createdAt'', js ''endpoint'']"
  by (simp add: object_keys_def list_entry_api_def)

lemma keys_entry_flat:
  "object_keys (list_entry_flat e p) = [js ''slug'', js ''name'', js ''createdAt'']"
  by (simp add: object_keys_def list_entry_flat_def)





lemma api_log_call [simp]: "api (log_call c st) = api st"
  by (simp add: log_call_def)

lemma stamps_ok_log [simp]: "stamps_ok t (log_call c st) = stamps_ok t st"
  by (simp add: stamps_ok_def log_call_def)

lemma stamps_ok_doc_get: "stamps_ok t (snd (doc_get e k st)) = stamps_ok t st"
  by (simp add: doc_get_def split: option.splits)






















section \<open>Facts about \<open>JSON.stringify\<close> followed by \<open>JSON.parse\<close>\<close>

text \<open>The parser on some texts, valid and malformed.\<close>

lemma JSON_parse_examples:
  \<open>JSON_parse (js ''{"a": [1, 2.5e1, -0, true, null, "x"], "b": {}, "a": false}'')
     = Some (JObject [(js ''a'', JBool False), (js ''b'', JObject [])])\<close>
  \<open>JSON_parse (js '' [ ] '') = Some (JArray [])\<close>
  \<open>JSON_parse (js ''1.5'') = Some (JNum (3 / 2))\<close>
  \<open>JSON_parse (js ''-12e-1'') = Some (JNum (- 6 / 5))\<close>
  \<open>JSON_parse (js ''"'' @ [0x5C] @ js ''u0041'' @ [0x5C] @ js ''n"'') = Some (JString [0x41, 0x0A])\<close>
  \<open>JSON_parse (js ''01'') = None\<close>
  \<open>JSON_parse (js ''1.'') = None\<close>
  \<open>JSON_parse (js ''[1,]'') = None\<close>
  \<open>JSON_parse (js ''{"a":1,}'') = None\<close>
  \<open>JSON_parse (js ''{a:1}'') = None\<close>
  \<open>JSON_parse (js ''tru'') = None\<close>
  \<open>JSON_parse (js ''undefined'') = None\<close>
  \<open>JSON_parse (js ''1 2'') = None\<close>
  \<open>JSON_parse [] = None\<close>
  by (simp_all add: json_eval)































declare parse_elements.simps [simp del] parse_members.simps [simp del]































lemma stringify_example:
  \<open>JSON_stringify (JObject [(js ''a'', JArray [JNum 1, JNum (- 20), JBool True, JNull,
                                               JString (js ''x'' @ [0x22, 0x0A])])])
   = Some (js ''{"a":[1,-20,true,null,"x'' @ [0x5C, 0x22, 0x5C] @ js ''n"]}'')\<close>
  by (simp add: number_to_string_def show_nat.simps digit_char_def QuoteJSONString_def
      short_escape_def js_def cu_def is_leading_surrogate_def is_trailing_surrogate_def)

section \<open>The claims\<close>




text \<open>
  Claim C2 (slug format enforced on every operation) fails on \<^verbatim>\<open>src/backend/server.js\<close>:
  only its create handler calls \<open>validateSlug\<close>. For every slug whatsoever its read
  handler never answers 400 and always sends a \<^verbatim>\<open>get\<close> to the store, and its delete
  handler never answers 400 either. With \<^verbatim>\<open>My_Slug\<close>, which \<open>validateSlug\<close> rejects,
  GET, PUT and DELETE on \<^verbatim>\<open>/My_Slug\<close> are answered 404 after one store read each. (The
  handlers under \<^verbatim>\<open>/api\<close> and both create handlers do reject it: \<open>slug_enforced_api\<close>.)
\<close>

theorem flat_paths_skip_slug_check:
  "status (fst (read_flat e s b st)) \<noteq> 400
   \<and> calls (snd (read_flat e s b st)) = calls st @ [DocGet (js ''api'') s]
   \<and> status (fst (delete_flat e s b st)) \<noteq> 400
   \<and> \<not> validateSlug (js ''My_Slug'')
   \<and> server_flat (quiet_env 0) \<lparr>verb = GET, path = [js ''My_Slug''], body = no_body\<rparr> empty_store
       = (\<lparr>status = 404, payload = error_body ''Endpoint not found''\<rparr>,
          empty_store\<lparr>calls := [DocGet (js ''api'') (js ''My_Slug'')]\<rparr>)
   \<and> server_flat (quiet_env 0)
         \<lparr>verb = PUT, path = [js ''My_Slug''], body = put_body (js ''{}'')\<rparr> empty_store
       = (\<lparr>status = 404, payload = error_body ''Endpoint not found''\<rparr>,
          empty_store\<lparr>calls := [DocGet (js ''api'') (js ''My_Slug'')]\<rparr>)
   \<and> server_flat (quiet_env 0) \<lparr>verb = DELETE, path = [js ''My_Slug''], body = no_body\<rparr> empty_store
       = (\<lparr>status = 404, payload = error_body ''Endpoint not found''\<rparr>,
          empty_store\<lparr>calls := [DocGet (js ''api'') (js ''My_Slug'')]\<rparr>)"
proof -
  have "status (fst (read_flat e s b st)) \<noteq> 400"
    by (simp add: read_flat_status)
  moreover have "server_flat (quiet_env 0)
       \<lparr>verb = GET, path = [js ''My_Slug''], body = no_body\<rparr> empty_store
       = (\<lparr>status = 404, payload = error_body ''Endpoint not found''\<rparr>,
          empty_store\<lparr>calls := [DocGet (js ''api'') (js ''My_Slug'')]\<rparr>)"
    by (simp add: server_eval read_flat_def js_def cu_def)
  moreover have "server_flat (quiet_env 0)
         \<lparr>verb = PUT, path = [js ''My_Slug''], body = put_body (js ''{}'')\<rparr> empty_store
       = (\<lparr>status = 404, payload = error_body ''Endpoint not found''\<rparr>,
          empty_store\<lparr>calls := [DocGet (js ''api'') (js ''My_Slug'')]\<rparr>)"
    by (simp add: server_eval update_flat_def json_eval)
  moreover have "server_flat (quiet_env 0)
       \<lparr>verb = DELETE, path = [js ''My_Slug''], body = no_body\<rparr> empty_store
       = (\<lparr>status = 404, payload = error_body ''Endpoint not found''\<rparr>,
          empty_store\<lparr>calls := [DocGet (js ''api'') (js ''My_Slug'')]\<rparr>)"
    by (simp add: server_eval delete_flat_def js_def cu_def)
  ultimately show ?thesis
    using read_flat_calls_store [of e s b st] delete_flat_status [of e s b st] not_valid_My_Slug
    by blast
qed

text \<open>
  Claim C3. Duplicate create is rejected without overwrite. When a document with slug
  \<open>s\<close> exists, a create request for \<open>s\<close> never changes the stored documents, whatever
  else it carries; and when the request passes the handler's validation and the store
  read succeeds, the answer is 409 "Slug already exists". This holds for both create
  handlers. The witness runs two creates for \<^verbatim>\<open>widgets\<close> with different payloads on an
  empty store: the second is answered 409 and the document of the first remains.
\<close>

theorem duplicate_create_conflict:
  assumes "map_of (api st) s = Some d" and "body_slug b = Some s"
  shows "api (snd (create_flat e b st)) = api st \<and> api (snd (create_api e b st)) = api st
    \<and> (truthy_field (body_name b) \<and> truthy_field (body_jsonData b) \<and> validateSlug s
        \<and> truthy (validateJSON (to_string (body_jsonData b)))
        \<and> storeError e (DocGet (js ''api'') s) = None
       \<longrightarrow> fst (create_flat e b st) = conflict_response
         \<and> fst (create_api e b st) = conflict_response)"
  using create_flat_existing [OF assms, of e] create_api_existing [OF assms, of e]
  by simp

text \<open>Witness for C3: two creates in a row.\<close>

theorem duplicate_create_conflict_witness:
  "map_of (api (snd (create_api (quiet_env 10) widget_v1 empty_store))) (js ''widgets'')
     = Some \<lparr>name = js ''Widgets'', jsonData = JArray [JNum 1], slug = js ''widgets'',
             createdAt = 10, updatedAt = 10\<rparr>
   \<and> body_slug widget_v2 = Some (js ''widgets'')
   \<and> fst (create_api (quiet_env 20) widget_v2 (snd (create_api (quiet_env 10) widget_v1 empty_store)))
       = conflict_response
   \<and> api (snd (create_api (quiet_env 20) widget_v2
                 (snd (create_api (quiet_env 10) widget_v1 empty_store))))
       = api (snd (create_api (quiet_env 10) widget_v1 empty_store))"
proof -
  let ?st = "snd (create_api (quiet_env 10) widget_v1 empty_store)"
  let ?d = "\<lparr>name = js ''Widgets'', jsonData = JArray [JNum 1], slug = js ''widgets'',
             createdAt = 10, updatedAt = 10\<rparr>"
  have stored: "map_of (api ?st) (js ''widgets'') = Some ?d"
    by (simp add: first_create_api)
  have sl: "body_slug widget_v2 = Some (js ''widgets'')"
    by (simp add: widget_v2_def create_body_def)
  have ok: "truthy_field (body_name widget_v2) \<and> truthy_field (body_jsonData widget_v2)
      \<and> validateSlug (js ''widgets'')
      \<and> truthy (validateJSON (to_string (body_jsonData widget_v2)))
      \<and> storeError (quiet_env 20) (DocGet (js ''api'') (js ''widgets'')) = None"
    by (simp add: widget_v2_def create_body_def truthy_field_def to_string_def valid_widgets
        parse_array_2 quiet_env_def js_eq_Nil)
  from duplicate_create_conflict [OF stored sl, of "quiet_env 20"] ok stored sl
  show ?thesis by blast
qed



text \<open>
  Claim C5 (the health endpoint answers 200 whatever the store holds) fails on
  \<^verbatim>\<open>src/backend/server.js\<close>: the route \<^verbatim>\<open>GET /:slug\<close> is registered before
  \<^verbatim>\<open>GET /health\<close>, so a request for \<^verbatim>\<open>/health\<close> is served by the read handler with
  the slug \<^verbatim>\<open>health\<close>, and on a store without such a document the answer is 404. (In
  the second file \<^verbatim>\<open>GET /api/health\<close> always answers 200 and the extended
  \<^verbatim>\<open>GET /health\<close> answers 200 unless a store call fails, then 500: \<open>health_api_ok\<close>,
  \<open>route_health_extended\<close>, \<open>health_extended_status\<close>.)
\<close>

theorem flat_health_route_shadowed:
  "server_flat e \<lparr>verb = GET, path = [js ''health''], body = b\<rparr> st
     = read_flat e (js ''health'') b st
   \<and> server_flat (quiet_env 0) \<lparr>verb = GET, path = [js ''health''], body = no_body\<rparr> empty_store
       = (\<lparr>status = 404, payload = error_body ''Endpoint not found''\<rparr>,
          empty_store\<lparr>calls := [DocGet (js ''api'') (js ''health'')]\<rparr>)"
proof -
  have "read_flat (quiet_env 0) (js ''health'') no_body empty_store
       = (\<lparr>status = 404, payload = error_body ''Endpoint not found''\<rparr>,
          empty_store\<lparr>calls := [DocGet (js ''api'') (js ''health'')]\<rparr>)"
    by (simp add: read_flat_def gateway_defs quiet_env_def empty_store_def)
  then show ?thesis by (simp add: route_health_flat)
qed




text \<open>
  Claim C7. For every string \<open>s\<close>, \<open>validateSlug s\<close> is true exactly when \<open>s\<close> is
  non-empty and every code unit of it is a lowercase ASCII letter, a digit or a hyphen.
  The input is tested as it is: an uppercase letter, an underscore or surrounding blanks
  make the test fail (nothing is case-folded or trimmed), which the last four conjuncts
  show on concrete strings.
\<close>

theorem validateSlug_iff:
  "validateSlug s = (s \<noteq> [] \<and> (\<forall>c \<in> set s. slug_char c))
   \<and> validateSlug (js ''my-slug-01'')
   \<and> \<not> validateSlug (js ''My-slug'')
   \<and> \<not> validateSlug (js ''my_slug'')
   \<and> \<not> validateSlug (js '' my-slug'')
   \<and> \<not> validateSlug (js ''my-slug '')"
proof -
  have gen: "\<And>t. validateSlug t = (t \<noteq> [] \<and> (\<forall>c \<in> set t. slug_char c))"
    by (simp add: validateSlug_def regexp_test_slug_pattern list_all_iff)
  have "validateSlug (js ''my-slug-01'')"
    by (simp add: gen js_def cu_def slug_char_def lowercase_ascii_letter_def
        ascii_digit_def hyphen_def)
  moreover have "\<not> validateSlug (js ''My-slug'')"
    by (simp add: gen js_def cu_def slug_char_def lowercase_ascii_letter_def
        ascii_digit_def hyphen_def)
  moreover have "\<not> validateSlug (js ''my_slug'')"
    by (simp add: gen js_def cu_def slug_char_def lowercase_ascii_letter_def
        ascii_digit_def hyphen_def)
  moreover have "\<not> validateSlug (js '' my-slug'')"
    by (simp add: gen js_def cu_def slug_char_def lowercase_ascii_letter_def
        ascii_digit_def hyphen_def)
  moreover have "\<not> validateSlug (js ''my-slug '')"
    by (simp add: gen js_def cu_def slug_char_def lowercase_ascii_letter_def
        ascii_digit_def hyphen_def)
  ultimately show ?thesis using gen by blast
qed

text \<open>Witness for C7: the slug \<^verbatim>\<open>a-1\<close>.\<close>

theorem validateSlug_iff_witness:
  "validateSlug (js ''a-1'') \<and> js ''a-1'' \<noteq> [] \<and> list_all slug_char (js ''a-1'')"
proof -
  have ne: "js ''a-1'' \<noteq> []" by (simp add: js_def)
  have all: "list_all slug_char (js ''a-1'')"
    by (simp add: js_def cu_def slug_char_def lowercase_ascii_letter_def
        ascii_digit_def hyphen_def)
  from validateSlug_iff [of "js ''a-1''"] ne all show ?thesis
    by (simp add: list_all_iff)
qed



text \<open>
  Claim C9, amended. When the store answers the collection read, the list handler under
  \<^verbatim>\<open>/api\<close> answers 200 with \<^verbatim>\<open>{count, endpoints}\<close>, where \<open>count\<close> is the number of
  stored documents and \<open>endpoints\<close> has one entry per document with exactly the keys
  \<^verbatim>\<open>slug\<close>, \<^verbatim>\<open>name\<close>, \<^verbatim>\<open>createdAt\<close>, \<^verbatim>\<open>endpoint\<close>; the list handler of
  \<^verbatim>\<open>src/backend/server.js\<close> answers 200 with \<^verbatim>\<open>{endpoints}\<close> only (no count), one
  entry per document with exactly the keys \<^verbatim>\<open>slug\<close>, \<^verbatim>\<open>name\<close>, \<^verbatim>\<open>createdAt\<close>.
  \<^verbatim>\<open>jsonData\<close> is none of these keys. With no documents the bodies are
  \<^verbatim>\<open>{count: 0, endpoints: []}\<close> and \<^verbatim>\<open>{endpoints: []}\<close>.
\<close>

theorem list_shape:
  assumes "storeError e (CollectionGet (js ''api'')) = None"
  shows "fst (list_api e b st) =
           \<lparr>status = 200,
            payload = JObject [(js ''count'', JNum (of_nat (length (api st)))),
                               (js ''endpoints'',
                                JArray (map (list_entry_api e) (sort_key fst (api st))))]\<rparr>
       \<and> fst (list_flat e b st) =
           \<lparr>status = 200,
            payload = JObject [(js ''endpoints'',
                                JArray (map (list_entry_flat e)
                                  (rev (sort_key (\<lambda>p. (createdAt (snd p), fst p)) (api st)))))]\<rparr>
       \<and> length (map (list_entry_api e) (sort_key fst (api st))) = length (api st)
       \<and> length (map (list_entry_flat e)
                   (rev (sort_key (\<lambda>p. (createdAt (snd p), fst p)) (api st)))) = length (api st)
       \<and> object_keys (list_entry_api e p)
           = [js ''slug'', js ''name'', js ''createdAt'', js ''endpoint'']
       \<and> object_keys (list_entry_flat e p) = [js ''slug'', js ''name'', js ''createdAt'']
       \<and> js ''jsonData'' \<notin> set [js ''slug'', js ''name'', js ''createdAt'', js ''endpoint'']
       \<and> (api st = [] \<longrightarrow>
            payload (fst (list_api e b st))
              = JObject [(js ''count'', JNum 0), (js ''endpoints'', JArray [])]
          \<and> payload (fst (list_flat e b st)) = JObject [(js ''endpoints'', JArray [])])"
proof -
  have "js ''jsonData'' \<notin> set [js ''slug'', js ''name'', js ''createdAt'', js ''endpoint'']"
    by (simp add: js_def cu_def)
  then show ?thesis
    using list_api_ok [OF assms, of b st] list_flat_ok [OF assms, of b st]
      keys_entry_api [of e p] keys_entry_flat [of e p]
    by simp
qed

text \<open>Witness for C9: the empty store.\<close>

theorem list_shape_witness:
  "storeError (quiet_env 10) (CollectionGet (js ''api'')) = None
   \<and> api empty_store = []
   \<and> payload (fst (list_api (quiet_env 10) no_body empty_store))
       = JObject [(js ''count'', JNum 0), (js ''endpoints'', JArray [])]
   \<and> payload (fst (list_flat (quiet_env 10) no_body empty_store))
       = JObject [(js ''endpoints'', JArray [])]"
proof -
  have quiet: "storeError (quiet_env 10) (CollectionGet (js ''api'')) = None"
    by (simp add: quiet_env_def)
  have none: "api empty_store = []"
    by (simp add: empty_store_def)
  from list_shape [OF quiet, of no_body empty_store] quiet none
  show ?thesis by blast
qed

text \<open>
  Counterexample to C9 as stated: with no documents, the list handler of
  \<^verbatim>\<open>src/backend/server.js\<close> answers \<^verbatim>\<open>{endpoints: []}\<close>, not
  \<^verbatim>\<open>{count: 0, endpoints: []}\<close>.
\<close>

theorem list_flat_has_no_count:
  "fst (list_flat (quiet_env 10) no_body empty_store)
     = \<lparr>status = 200, payload = JObject [(js ''endpoints'', JArray [])]\<rparr>
   \<and> payload (fst (list_flat (quiet_env 10) no_body empty_store))
       \<noteq> JObject [(js ''count'', JNum 0), (js ''endpoints'', JArray [])]"
  by (simp add: list_flat_def gateway_defs quiet_env_def empty_store_def)

text \<open>
  Claim C10. A syntactically valid JSON text \<open>j\<close> (one that \<^verbatim>\<open>JSON.parse\<close> accepts,
  with value \<open>v\<close>) in an otherwise acceptable request is answered 400 "Invalid JSON data"
  exactly when \<open>v\<close> is falsy: by both create handlers (name present, slug present and
  valid), by the update handler of \<^verbatim>\<open>server.js\<close> for any slug, and by the update handler
  under \<^verbatim>\<open>/api\<close> for a valid slug. The texts \<^verbatim>\<open>null\<close>, \<^verbatim>\<open>false\<close>, \<^verbatim>\<open>0\<close> and
  \<^verbatim>\<open>""\<close> are valid and falsy, and \<open>validateJSON\<close> gives the same result for the valid
  text \<^verbatim>\<open>null\<close> as for the malformed text \<^verbatim>\<open>{\<close>.
\<close>

theorem falsy_json_rejected:
  assumes "JSON_parse j = Some v" and "body_jsonData b = Some j"
  shows \<open>(truthy_field (body_name b) \<and> truthy_field (body_slug b)
           \<and> validateSlug (to_string (body_slug b))
          \<longrightarrow> (fst (create_flat e b st) = invalid_json_response) = (\<not> truthy v)
            \<and> (fst (create_api e b st) = invalid_json_response) = (\<not> truthy v))
     \<and> (fst (update_flat e s b st) = invalid_json_response) = (\<not> truthy v)
     \<and> (validateSlug s
          \<longrightarrow> (fst (update_api e s b st) = invalid_json_response) = (\<not> truthy v))
     \<and> JSON_parse (js ''null'') = Some JNull \<and> \<not> truthy JNull
     \<and> JSON_parse (js ''false'') = Some (JBool False) \<and> \<not> truthy (JBool False)
     \<and> JSON_parse (js ''0'') = Some (JNum 0) \<and> \<not> truthy (JNum 0)
     \<and> JSON_parse (js ''""'') = Some (JString []) \<and> \<not> truthy (JString [])
     \<and> validateJSON (js ''null'') = validateJSON (js ''{'')\<close>
proof -
  have \<open>validateJSON (js ''null'') = validateJSON (js ''{'')\<close>
    by (simp add: json_eval)
  then show ?thesis
    using create_flat_bad_json_iff [OF assms, of e st] create_api_bad_json_iff [OF assms, of e st]
      update_flat_bad_json_iff [OF assms, of e s st] update_api_bad_json_iff [OF assms, of s e st]
      falsy_examples
    by (simp add: rounds_to_zero_def)
qed

text \<open>Witness for C10: the payload \<^verbatim>\<open>null\<close>.\<close>

theorem falsy_json_rejected_witness:
  "JSON_parse (js ''null'') = Some JNull
   \<and> body_jsonData null_widget = Some (js ''null'')
   \<and> truthy_field (body_name null_widget) \<and> truthy_field (body_slug null_widget)
   \<and> validateSlug (to_string (body_slug null_widget))
   \<and> validateSlug (js ''widgets'')
   \<and> fst (create_flat (quiet_env 10) null_widget empty_store) = invalid_json_response
   \<and> fst (create_api (quiet_env 10) null_widget empty_store) = invalid_json_response
   \<and> fst (update_flat (quiet_env 10) (js ''widgets'') null_widget empty_store)
       = invalid_json_response
   \<and> fst (update_api (quiet_env 10) (js ''widgets'') null_widget empty_store)
       = invalid_json_response"
proof -
  have p: "JSON_parse (js ''null'') = Some JNull"
    by (simp add: json_eval)
  have j: "body_jsonData null_widget = Some (js ''null'')"
    by (simp add: null_widget_def create_body_def)
  have ok: "truthy_field (body_name null_widget) \<and> truthy_field (body_slug null_widget)
      \<and> validateSlug (to_string (body_slug null_widget)) \<and> validateSlug (js ''widgets'')"
    by (simp add: null_widget_def create_body_def truthy_field_def to_string_def valid_widgets
        js_eq_Nil)
  from falsy_json_rejected [OF p j, of "quiet_env 10" empty_store "js ''widgets''"] p j ok
  show ?thesis by simp
qed

end
